theory Spec2Isabelle
  imports Main "HOL-Library.Sublist"
begin

section \<open>Python strings and exceptions\<close>

text \<open>
  A Python \<open>str\<close> is modelled as a \<open>string\<close> whose characters are the code points
  U+0000 to U+00FF. On that alphabet \<open>str.isspace\<close> holds for TAB, LF, VT, FF, CR, the
  separators U+001C to U+001F, the blank, NEL (U+0085) and the no-break space (U+00A0);
  \<open>str.lower\<close> moves A-Z and the Latin-1 capitals (all of U+00C0..U+00DE but the
  multiplication sign) 32 places up.
\<close>

definition py_isspace :: "char \<Rightarrow> bool" where
  "py_isspace c = (of_char c \<in> {9, 10, 11, 12, 13, 28, 29, 30, 31, 32, 133, 160 :: nat})"

definition py_strip :: "string \<Rightarrow> string" where
  "py_strip s = rev (dropWhile py_isspace (rev (dropWhile py_isspace s)))"

definition py_lower_char :: "char \<Rightarrow> char" where
  "py_lower_char c =
     (let n = (of_char c :: nat)
      in if (65 \<le> n \<and> n \<le> 90) \<or> (192 \<le> n \<and> n \<le> 222 \<and> n \<noteq> 215)
         then char_of (n + 32) else c)"

definition py_lower :: "string \<Rightarrow> string" where
  "py_lower s = map py_lower_char s"

definition startswith :: "string \<Rightarrow> string \<Rightarrow> bool" where
  "startswith s p = prefix p s"

text \<open>\<open>str(n)\<close> for an integer: decimal digits, with a sign for a negative number.\<close>

fun str_nat :: "nat \<Rightarrow> string" where
  "str_nat n = (if n < 10 then [char_of (48 + n)] else str_nat (n div 10) @ [char_of (48 + n mod 10)])"

declare str_nat.simps [simp del]

definition str_int :: "int \<Rightarrow> string" where
  "str_int i = (if i < 0 then CHR ''-'' # str_nat (nat (- i)) else str_nat (nat i))"

text \<open>\<open>s.replace('www.', '')\<close>: every occurrence, found left to right, is dropped.\<close>

function replace_www :: "string \<Rightarrow> string" where
  "replace_www [] = []"
| "replace_www (c # cs) =
     (if take 4 (c # cs) = ''www.'' then replace_www (drop 3 cs) else c # replace_www cs)"
  by pat_completeness auto
termination
  by (relation "measure length") auto

text \<open>\<open>os.path.join\<close> of two components, as \<open>posixpath\<close> has it.\<close>

definition path_join :: "string \<Rightarrow> string \<Rightarrow> string" where
  "path_join a b =
     (if startswith b ''/'' then b
      else if a = [] \<or> last a = CHR ''/'' then a @ b
      else a @ ''/'' @ b)"

text \<open>
  The exceptions the program can meet, all of them instances of \<open>Exception\<close>.
  \<open>FileNotFoundError\<close> and \<open>PermissionError\<close> are subclasses of \<open>OSError\<close>.
\<close>

datatype py_exception =
    FileNotFoundError | PermissionError | OSError | TimeoutExpired
  | ValueError | UnicodeDecodeError | ConfigParserError | KeyError | EOFError

definition is_OSError :: "py_exception \<Rightarrow> bool" where
  "is_OSError e = (e = FileNotFoundError \<or> e = PermissionError \<or> e = OSError)"

section \<open>The world the program runs in\<close>

text \<open>
  The lines the program prints through \<open>utils/colors.py\<close>, one constructor per message of
  the source. A formatted value is kept as the constructor's argument.
\<close>

datatype message =
    InvalidUrlSkipped string
  | StartingDownload
  | DownloadComplete nat
  | OutputFileEmpty
  | ReencodingFailed
  | DownloadFailed
  | ProcessTimedOut
  | UnexpectedError py_exception
  | CommandNotFound
  | ExecuteFailed py_exception
  | FallbackSuccessful
  | FallbackFileEmpty
  | FallbackFailed
  | FallbackUnexpected py_exception
  | SettingsNotFound
  | InvalidSettingsFile
  | SettingsReadError py_exception
  | SettingsSaveError py_exception
  | DefaultSettingsCreated
  | CannotCreateSettings py_exception
  | CouldNotReadUrls py_exception
  | VideoHeader nat nat
  | JobError py_exception
  | CompletedCount nat
  | FailedCount nat
  | AllSuccessful
  | FfmpegNotWorking
  | FfmpegNotFound
  | FfmpegCheckFailed
  | FfmpegMissing
  | NoUrlsFound
  | VideosReady nat
  | DirectoryNotWritable
  | DirectoryError py_exception
  | CannotAccessDirectory
  | QualityFormat string string
  | Cancelled

text \<open>
  A file the program reads as text is absent, or fails to be read with an exception, or
  holds a content. \<open>settings.ini\<close> holds what \<open>configparser\<close> reads from it: its
  sections and the options of its \<open>[DEFAULT]\<close> section.
\<close>

datatype 'a disk_file = Absent | Fails py_exception | Holds 'a

record ini =
  ini_sections :: "string \<rightharpoonup> (string \<rightharpoonup> string)"
  ini_defaults :: "string \<rightharpoonup> string"

text \<open>
  The state of the machine: the size of every media file (\<open>files\<close>), the Unix time
  (\<open>clock\<close>), the argument lists handed to \<open>subprocess.Popen\<close> so far, oldest first
  (\<open>started\<close>), the messages printed so far (\<open>console\<close>), the two text files of the
  file handler, and the exception, if any, that opening each of them for writing raises;
  the lines waiting on standard input (\<open>keyboard\<close>); and, for every directory, the
  exception that \<open>os.makedirs\<close> raises on it and the one that writing and removing a
  file in it raises, if any.
\<close>

record world =
  files :: "string \<rightharpoonup> nat"
  clock :: int
  started :: "string list list"
  console :: "message list"
  settings_ini :: "ini disk_file"
  settings_write :: "py_exception option"
  urls_txt :: "string list disk_file"
  urls_write :: "py_exception option"
  keyboard :: "string list"
  makedirs_error :: "string \<Rightarrow> py_exception option"
  dir_write_error :: "string \<Rightarrow> py_exception option"

text \<open>
  One run of the external tool: how \<open>Popen\<close> and the reading of its output end, how
  many seconds of wall clock it takes, and what it does to the media files.
\<close>

datatype outcome = Raised py_exception | Exited int

record run =
  outcome :: outcome
  seconds :: nat
  leaves :: "(string \<rightharpoonup> nat) \<Rightarrow> (string \<rightharpoonup> nat)"

text \<open>
  What the program does not own: the external tool (any function of the state it is
  started in and of its argument list), \<open>urllib.parse.urlparse(url).netloc\<close>, and the
  value interpolation \<open>configparser\<close> applies in \<open>get\<close>.
\<close>

record env =
  tool :: "world \<Rightarrow> string list \<Rightarrow> run"
  urlparse_netloc :: "string \<Rightarrow> py_exception + string"
  before_get :: "(string \<rightharpoonup> string) \<Rightarrow> string \<Rightarrow> py_exception + string"

definition say :: "message \<Rightarrow> world \<Rightarrow> world" where
  "say m w = w\<lparr>console := console w @ [m]\<rparr>"

definition path_exists :: "world \<Rightarrow> string \<Rightarrow> bool" where
  "path_exists w p = (files w p \<noteq> None)"

definition path_getsize :: "world \<Rightarrow> string \<Rightarrow> py_exception + nat" where
  "path_getsize w p = (case files w p of None \<Rightarrow> Inl FileNotFoundError | Some n \<Rightarrow> Inr n)"

section \<open>core/downloader.py\<close>

record downloader =
  video_quality :: string
  output_format :: string
  ffmpeg_path :: string

definition VideoDownloader :: "string \<Rightarrow> string \<Rightarrow> string option \<Rightarrow> downloader" where
  "VideoDownloader quality fmt path =
     \<lparr>video_quality = quality, output_format = fmt,
      ffmpeg_path = (case path of None \<Rightarrow> ''ffmpeg'' | Some p \<Rightarrow> if p = [] then ''ffmpeg'' else p)\<rparr>"

definition quality_best :: "string list" where
  "quality_best = [''-c'', ''copy'']"

definition quality_map :: "(string \<times> string list) list" where
  "quality_map =
     [(''best'', quality_best),
      (''high'', [''-vf'', ''scale=-2:720'', ''-c:v'', ''libx264'', ''-c:a'', ''aac'']),
      (''medium'', [''-vf'', ''scale=-2:480'', ''-c:v'', ''libx264'', ''-c:a'', ''aac'']),
      (''low'', [''-vf'', ''scale=-2:360'', ''-c:v'', ''libx264'', ''-c:a'', ''aac''])]"

definition get_quality_params :: "downloader \<Rightarrow> string list" where
  "get_quality_params self =
     (case map_of quality_map (video_quality self) of
        Some params \<Rightarrow> params
      | None \<Rightarrow> quality_best)"

definition build_ffmpeg_command :: "downloader \<Rightarrow> string \<Rightarrow> string \<Rightarrow> string list" where
  "build_ffmpeg_command self url output_path =
     (let cmd = [ffmpeg_path self, ''-i'', url, ''-bsf:a'', ''aac_adtstoasc'', ''-y''];
          cmd = cmd @ [''-loglevel'', ''error'', ''-stats''];
          cmd = cmd @ get_quality_params self;
          cmd = cmd @ [output_path]
      in cmd)"

text \<open>
  \<open>_execute_ffmpeg_command\<close>: \<open>Popen\<close> starts the tool, its output is read to the end,
  \<open>process.wait()\<close> is called with no argument and returns the exit code. An exception
  on the way is caught here, \<open>FileNotFoundError\<close> first and every other \<open>Exception\<close>
  after it. The panel the output lines are printed in is not part of the model.
\<close>

definition execute_ffmpeg_command :: "env \<Rightarrow> string list \<Rightarrow> world \<Rightarrow> bool \<times> world" where
  "execute_ffmpeg_command env cmd w =
     (let r = tool env w cmd;
          w' = w\<lparr>started := started w @ [cmd],
                 files := leaves r (files w),
                 clock := clock w + int (seconds r)\<rparr>
      in case outcome r of
           Exited return_code \<Rightarrow> (return_code = 0, w')
         | Raised e \<Rightarrow>
             if e = FileNotFoundError then (False, say CommandNotFound w')
             else (False, say (ExecuteFailed e) w'))"

definition generate_output_filename :: "env \<Rightarrow> downloader \<Rightarrow> string \<Rightarrow> string \<Rightarrow> world \<Rightarrow> string" where
  "generate_output_filename env self url output_dir w =
     (case urlparse_netloc env url of
        Inr netloc \<Rightarrow>
          (let domain = replace_www netloc;
               timestamp = clock w;
               filename = domain @ ''_'' @ str_int timestamp @ ''.'' @ output_format self
           in path_join output_dir filename)
      | Inl e \<Rightarrow>
          (let timestamp = clock w;
               filename = ''video_'' @ str_int timestamp @ ''.'' @ output_format self
           in path_join output_dir filename))"

definition fallback_cmd :: "downloader \<Rightarrow> string \<Rightarrow> string \<Rightarrow> string list" where
  "fallback_cmd self url output_path =
     [ffmpeg_path self, ''-i'', url, ''-c'', ''copy'', ''-bsf:a'', ''aac_adtstoasc'', ''-y'',
      output_path]"

text \<open>
  The body of the \<open>try\<close> of \<open>_try_fallback_download\<close>, and the function with its
  \<open>except Exception\<close>.
\<close>

definition try_fallback_body ::
  "env \<Rightarrow> downloader \<Rightarrow> string \<Rightarrow> string \<Rightarrow> world \<Rightarrow> (py_exception + bool) \<times> world" where
  "try_fallback_body env self url output_path w =
     (case execute_ffmpeg_command env (fallback_cmd self url output_path) w of
        (True, w1) \<Rightarrow>
          if path_exists w1 output_path then
            (case path_getsize w1 output_path of
               Inl e \<Rightarrow> (Inl e, w1)
             | Inr n \<Rightarrow>
                 if n > 0 then (Inr True, say FallbackSuccessful w1)
                 else (Inr False, say FallbackFileEmpty w1))
          else (Inr False, say FallbackFileEmpty w1)
      | (False, w1) \<Rightarrow> (Inr False, say FallbackFailed w1))"

definition try_fallback_download ::
  "env \<Rightarrow> downloader \<Rightarrow> string \<Rightarrow> string \<Rightarrow> world \<Rightarrow> bool \<times> world" where
  "try_fallback_download env self url output_path w =
     (case try_fallback_body env self url output_path w of
        (Inr b, w') \<Rightarrow> (b, w')
      | (Inl e, w') \<Rightarrow> (False, say (FallbackUnexpected e) w'))"

text \<open>
  \<open>download_video\<close>: the check of the URL, the body of the \<open>try\<close>, and the two handlers
  (\<open>subprocess.TimeoutExpired\<close>, then \<open>Exception\<close>). The result is \<open>Inr\<close> of the boolean
  returned, or \<open>Inl\<close> of an exception that reaches the caller.
\<close>

definition url_is_valid :: "string \<Rightarrow> bool" where
  "url_is_valid url =
     (py_strip url \<noteq> [] \<and>
      (startswith (py_lower url) ''http://'' \<or> startswith (py_lower url) ''https://''))"

definition download_body ::
  "env \<Rightarrow> downloader \<Rightarrow> string \<Rightarrow> string \<Rightarrow> world \<Rightarrow> (py_exception + bool) \<times> world" where
  "download_body env self url output_dir w =
     (let output_path = generate_output_filename env self url output_dir w;
          w0 = say StartingDownload w;
          cmd = build_ffmpeg_command self url output_path
      in case execute_ffmpeg_command env cmd w0 of
           (True, w1) \<Rightarrow>
             if path_exists w1 output_path then
               (case path_getsize w1 output_path of
                  Inl e \<Rightarrow> (Inl e, w1)
                | Inr n \<Rightarrow>
                    if n > 0 then
                      (case path_getsize w1 output_path of
                         Inl e \<Rightarrow> (Inl e, w1)
                       | Inr file_size \<Rightarrow> (Inr True, say (DownloadComplete file_size) w1))
                    else (Inr False, say OutputFileEmpty w1))
             else (Inr False, say OutputFileEmpty w1)
         | (False, w1) \<Rightarrow>
             if video_quality self \<noteq> ''best'' then
               (case try_fallback_download env self url output_path (say ReencodingFailed w1) of
                  (b, w2) \<Rightarrow> (Inr b, w2))
             else (Inr False, say DownloadFailed w1))"

definition download_video ::
  "env \<Rightarrow> downloader \<Rightarrow> string \<Rightarrow> string \<Rightarrow> world \<Rightarrow> (py_exception + bool) \<times> world" where
  "download_video env self url output_dir w =
     (if \<not> url_is_valid url then (Inr False, say (InvalidUrlSkipped (take 50 url)) w)
      else
        (case download_body env self url output_dir w of
           (Inr b, w') \<Rightarrow> (Inr b, w')
         | (Inl e, w') \<Rightarrow>
             if e = TimeoutExpired then (Inr False, say ProcessTimedOut w')
             else (Inr False, say (UnexpectedError e) w')))"





section \<open>core/file_handler.py\<close>

text \<open>
  \<open>default_settings\<close> is a dictionary with four keys, read in the order they are written
  in. A settings dictionary the functions return is a map from keys to values.
\<close>

definition default_settings :: "(string \<times> string) list" where
  "default_settings =
     [(''download_directory'', ''./downloads''),
      (''video_quality'', ''best''),
      (''output_format'', ''mp4''),
      (''ffmpeg_path'', ''ffmpeg'')]"

text \<open>
  \<open>write_settings\<close> puts the dictionary under the section \<open>SETTINGS\<close> of a fresh parser
  and writes the parser to \<open>settings.ini\<close>; an exception of the writing is caught and
  reported as \<open>False\<close>. (The assignment \<open>config['SETTINGS'] = settings\<close> stands before the
  \<open>try\<close>; \<open>configparser\<close> refuses a value with a stray percent sign there. The functions
  modelled here write the defaults only, and none of them has one.)
\<close>

definition write_settings :: "(string \<rightharpoonup> string) \<Rightarrow> world \<Rightarrow> bool \<times> world" where
  "write_settings settings w =
     (case settings_write w of
        None \<Rightarrow>
          (True, w\<lparr>settings_ini :=
                      Holds \<lparr>ini_sections = [''SETTINGS'' \<mapsto> settings], ini_defaults = Map.empty\<rparr>\<rparr>)
      | Some e \<Rightarrow> (False, say (SettingsSaveError e) w))"

text \<open>
  \<open>_create_default_settings\<close> ignores what \<open>write_settings\<close> returns and reports the
  defaults as created. Its own \<open>except\<close> is never entered: \<open>write_settings\<close> catches the
  exceptions of the writing itself.
\<close>

definition create_default_settings :: "world \<Rightarrow> (string \<rightharpoonup> string) \<times> world" where
  "create_default_settings w =
     (case write_settings (map_of default_settings) w of
        (written, w') \<Rightarrow> (map_of default_settings, say DefaultSettingsCreated w'))"

text \<open>
  \<open>config.read(file)\<close> skips a file whose opening or reading raises \<open>OSError\<close> and leaves
  the parser empty; any other exception of the reading reaches the caller.
\<close>

definition config_read :: "world \<Rightarrow> py_exception + ini" where
  "config_read w =
     (case settings_ini w of
        Absent \<Rightarrow> Inr \<lparr>ini_sections = Map.empty, ini_defaults = Map.empty\<rparr>
      | Fails e \<Rightarrow>
          if is_OSError e then Inr \<lparr>ini_sections = Map.empty, ini_defaults = Map.empty\<rparr>
          else Inl e
      | Holds c \<Rightarrow> Inr c)"

text \<open>
  \<open>config.get(section, option, fallback=...)\<close>: the option is looked up in the section,
  then in \<open>[DEFAULT]\<close>; a value found is interpolated, which can raise; the fallback
  stands in for a missing section or option.
\<close>

definition config_get :: "env \<Rightarrow> ini \<Rightarrow> string \<Rightarrow> string \<Rightarrow> string \<Rightarrow> py_exception + string" where
  "config_get env config section option fallback =
     (case ini_sections config section of
        None \<Rightarrow> Inr fallback
      | Some sec \<Rightarrow>
          (let d = ini_defaults config ++ sec
           in case d option of
                None \<Rightarrow> Inr fallback
              | Some v \<Rightarrow> before_get env d v))"

text \<open>The loop \<open>for key in self.default_settings\<close> of \<open>read_settings\<close>.\<close>

fun read_keys ::
  "env \<Rightarrow> ini \<Rightarrow> (string \<times> string) list \<Rightarrow> (string \<rightharpoonup> string) \<Rightarrow> py_exception + (string \<rightharpoonup> string)" where
  "read_keys env config [] settings = Inr settings"
| "read_keys env config ((key, dflt) # rest) settings =
     (case config_get env config ''SETTINGS'' key dflt of
        Inl e \<Rightarrow> Inl e
      | Inr v \<Rightarrow> read_keys env config rest (settings(key \<mapsto> v)))"

text \<open>The body of the \<open>try\<close> of \<open>read_settings\<close>, and the function with its handler.\<close>

definition read_settings_body :: "env \<Rightarrow> world \<Rightarrow> (py_exception + (string \<rightharpoonup> string)) \<times> world" where
  "read_settings_body env w =
     (if settings_ini w \<noteq> Absent then
        (case config_read w of
           Inl e \<Rightarrow> (Inl e, w)
         | Inr config \<Rightarrow>
             if ini_sections config ''SETTINGS'' \<noteq> None then
               (case read_keys env config default_settings Map.empty of
                  Inl e \<Rightarrow> (Inl e, w)
                | Inr settings \<Rightarrow> (Inr settings, w))
             else
               (case create_default_settings (say InvalidSettingsFile w) of
                  (settings, w') \<Rightarrow> (Inr settings, w')))
      else
        (case create_default_settings (say SettingsNotFound w) of
           (settings, w') \<Rightarrow> (Inr settings, w')))"

definition read_settings :: "env \<Rightarrow> world \<Rightarrow> (py_exception + (string \<rightharpoonup> string)) \<times> world" where
  "read_settings env w =
     (case read_settings_body env w of
        (Inr settings, w') \<Rightarrow> (Inr settings, w')
      | (Inl e, w') \<Rightarrow> (Inr (map_of default_settings), say (SettingsReadError e) w'))"

text \<open>
  What \<open>settings.ini\<close> provides for a key: the value under \<open>[SETTINGS]\<close> or, failing
  that, under \<open>[DEFAULT]\<close>, before interpolation. A key is missing when this is \<open>None\<close>:
  always so for a file that is absent, unreadable or without the section.
\<close>

definition file_option :: "world \<Rightarrow> string \<Rightarrow> string option" where
  "file_option w key =
     (case settings_ini w of
        Holds config \<Rightarrow>
          (case ini_sections config ''SETTINGS'' of
             Some sec \<Rightarrow> (ini_defaults config ++ sec) key
           | None \<Rightarrow> None)
      | _ \<Rightarrow> None)"





section \<open>ui/menu.py\<close>

text \<open>
  The loop of \<open>download_videos\<close> over \<open>enumerate(urls, 1)\<close>, for any job: the header
  \<open>Video i/n\<close>, the call, and the count of its outcome; an exception of the call is
  caught and counted as a failure.
\<close>

fun download_loop ::
  "(string \<Rightarrow> world \<Rightarrow> (py_exception + bool) \<times> world) \<Rightarrow> nat \<Rightarrow> nat \<Rightarrow> string list
     \<Rightarrow> nat \<times> nat \<times> world \<Rightarrow> nat \<times> nat \<times> world" where
  "download_loop job n i [] (successful, failed, w) = (successful, failed, w)"
| "download_loop job n i (url # urls) (successful, failed, w) =
     (case job url (say (VideoHeader i n) w) of
        (Inr True, w') \<Rightarrow> download_loop job n (i + 1) urls (successful + 1, failed, w')
      | (Inr False, w') \<Rightarrow> download_loop job n (i + 1) urls (successful, failed + 1, w')
      | (Inl e, w') \<Rightarrow>
          download_loop job n (i + 1) urls (successful, failed + 1, say (JobError e) w'))"





text \<open>
  Reading the log of started commands: a primary command carries
  \<open>-loglevel error -stats\<close> at its seventh place, the fallback command does not; the
  URL is the third argument of both.
\<close>

definition is_primary :: "string list \<Rightarrow> bool" where
  "is_primary cmd = (take 3 (drop 6 cmd) = [''-loglevel'', ''error'', ''-stats''])"

definition input_url :: "string list \<Rightarrow> string" where
  "input_url cmd = concat (take 1 (drop 2 cmd))"

text \<open>The header \<open>Video i/n\<close> the loop prints before each job.\<close>

definition is_header :: "message \<Rightarrow> bool" where
  "is_header m = (case m of VideoHeader i n \<Rightarrow> True | _ \<Rightarrow> False)"

section \<open>Sample environments and states\<close>

text \<open>
  The environments below stand in for the libraries in the examples only; no theorem
  about all environments depends on them. \<open>urlsplit_netloc\<close> is a simplified reading of
  \<open>urlsplit\<close> of \<open>urllib.parse\<close>: the authority is what stands between \<open>//\<close> and the
  next \<open>/\<close>, \<open>?\<close> or \<open>#\<close>, and it is refused with \<open>ValueError\<close> when it holds one of
  the two square brackets without the other. The interpolation of \<open>sample_env\<close> leaves
  every value as it is.
\<close>

definition urlsplit_netloc :: "string \<Rightarrow> py_exception + string" where
  "urlsplit_netloc url =
     (let rest = drop 1 (dropWhile (\<lambda>c. c \<noteq> CHR '':'') url);
          netloc = (if take 2 rest = ''//''
                    then takeWhile (\<lambda>c. c \<notin> set ''/?#'') (drop 2 rest) else [])
      in if (CHR ''['' \<in> set netloc) \<noteq> (CHR '']'' \<in> set netloc)
         then Inl ValueError else Inr netloc)"

text \<open>
  A tool whose every run ends the same way and leaves the file named by the last
  argument with the given size (or without a file); and a tool whose re-encoding runs
  end with exit code 1 and whose stream-copy runs succeed.
\<close>

definition tool_with :: "outcome \<Rightarrow> nat \<Rightarrow> nat option \<Rightarrow> world \<Rightarrow> string list \<Rightarrow> run" where
  "tool_with oc secs sz w cmd =
     \<lparr>outcome = oc, seconds = secs, leaves = (\<lambda>fs. fs(last cmd := sz))\<rparr>"

definition tool_copy_only :: "world \<Rightarrow> string list \<Rightarrow> run" where
  "tool_copy_only w cmd =
     (if ''libx264'' \<in> set cmd
      then \<lparr>outcome = Exited 1, seconds = 2, leaves = (\<lambda>fs. fs)\<rparr>
      else \<lparr>outcome = Exited 0, seconds = 40, leaves = (\<lambda>fs. fs(last cmd \<mapsto> 1000))\<rparr>)"

definition sample_env :: "(world \<Rightarrow> string list \<Rightarrow> run) \<Rightarrow> env" where
  "sample_env t = \<lparr>tool = t, urlparse_netloc = urlsplit_netloc, before_get = (\<lambda>d v. Inr v)\<rparr>"

definition empty_world :: world where
  "empty_world =
     \<lparr>files = Map.empty, clock = 1700000000, started = [], console = [],
      settings_ini = Absent, settings_write = None, urls_txt = Absent, urls_write = None,
      keyboard = [], makedirs_error = (\<lambda>d. None), dir_write_error = (\<lambda>d. None)\<rparr>"





section \<open>Properties of the downloader\<close>

subsection \<open>What one call of the tool and one job do to the state\<close>

lemma say_simps [simp]:
  "files (say m w) = files w" "started (say m w) = started w" "clock (say m w) = clock w"
  "console (say m w) = console w @ [m]" "settings_ini (say m w) = settings_ini w"
  "urls_txt (say m w) = urls_txt w" "settings_write (say m w) = settings_write w"
  "urls_write (say m w) = urls_write w" "keyboard (say m w) = keyboard w"
  "makedirs_error (say m w) = makedirs_error w" "dir_write_error (say m w) = dir_write_error w"
  by (simp_all add: say_def)

lemma execute_started [simp]:
  "started (snd (execute_ffmpeg_command env cmd w)) = started w @ [cmd]"
  by (simp add: execute_ffmpeg_command_def Let_def split: outcome.splits)

lemma execute_files [simp]:
  "files (snd (execute_ffmpeg_command env cmd w)) = leaves (tool env w cmd) (files w)"
  by (simp add: execute_ffmpeg_command_def Let_def split: outcome.splits)

lemma execute_ok:
  "fst (execute_ffmpeg_command env cmd w) = (outcome (tool env w cmd) = Exited 0)"
  by (simp add: execute_ffmpeg_command_def Let_def split: outcome.splits)

lemma fallback_started [simp]:
  "started (snd (try_fallback_download env self url p w)) = started w @ [fallback_cmd self url p]"
  unfolding try_fallback_download_def try_fallback_body_def
  by (cases "execute_ffmpeg_command env (fallback_cmd self url p) w")
     (use execute_started [of env "fallback_cmd self url p" w] in
       \<open>auto split: sum.splits bool.splits prod.splits\<close>)

lemma fallback_files [simp]:
  "files (snd (try_fallback_download env self url p w)) =
     leaves (tool env w (fallback_cmd self url p)) (files w)"
  unfolding try_fallback_download_def try_fallback_body_def
  by (cases "execute_ffmpeg_command env (fallback_cmd self url p) w")
     (use execute_files [of env "fallback_cmd self url p" w] in
       \<open>auto split: sum.splits bool.splits prod.splits\<close>)

lemma fallback_result:
  "fst (try_fallback_download env self url p w) =
     (outcome (tool env w (fallback_cmd self url p)) = Exited 0 \<and>
      (\<exists>n>0. leaves (tool env w (fallback_cmd self url p)) (files w) p = Some n))"
  unfolding try_fallback_download_def try_fallback_body_def
  by (cases "execute_ffmpeg_command env (fallback_cmd self url p) w")
     (use execute_files [of env "fallback_cmd self url p" w]
          execute_ok [of env "fallback_cmd self url p" w] in
       \<open>auto simp: path_exists_def path_getsize_def split: sum.splits bool.splits prod.splits option.splits\<close>)


lemma download_video_invalid:
  "\<not> url_is_valid url \<Longrightarrow>
   download_video env self url dir w = (Inr False, say (InvalidUrlSkipped (take 50 url)) w)"
  by (simp add: download_video_def)

lemma download_video_valid:
  assumes "url_is_valid url"
  shows "download_video env self url dir w =
     (let output_path = generate_output_filename env self url dir w;
          ex = execute_ffmpeg_command env (build_ffmpeg_command self url output_path)
                 (say StartingDownload w)
      in if fst ex then
           (case files (snd ex) output_path of
              None \<Rightarrow> (Inr False, say OutputFileEmpty (snd ex))
            | Some n \<Rightarrow>
                if n > 0 then (Inr True, say (DownloadComplete n) (snd ex))
                else (Inr False, say OutputFileEmpty (snd ex)))
         else if video_quality self \<noteq> ''best'' then
           (Inr (fst (try_fallback_download env self url output_path
                        (say ReencodingFailed (snd ex)))),
            snd (try_fallback_download env self url output_path
                        (say ReencodingFailed (snd ex))))
         else (Inr False, say DownloadFailed (snd ex)))"
proof -
  obtain ok w1 where ex:
    "execute_ffmpeg_command env
       (build_ffmpeg_command self url (generate_output_filename env self url dir w))
       (say StartingDownload w) = (ok, w1)"
    by (cases "execute_ffmpeg_command env
       (build_ffmpeg_command self url (generate_output_filename env self url dir w))
       (say StartingDownload w)")
  obtain b w2 where fb:
    "try_fallback_download env self url (generate_output_filename env self url dir w)
       (say ReencodingFailed w1) = (b, w2)"
    by (cases "try_fallback_download env self url (generate_output_filename env self url dir w)
       (say ReencodingFailed w1)")
  show ?thesis
    unfolding download_video_def download_body_def Let_def ex fb
    using assms
    by (cases ok)
       (simp_all add: path_exists_def path_getsize_def fb split: option.splits)
qed

lemma download_video_returns:
  "\<exists>b. fst (download_video env self url dir w) = Inr b"
proof (cases "url_is_valid url")
  case True
  show ?thesis
    unfolding download_video_valid [OF True] Let_def
    by (auto split: option.splits)
next
  case False
  then show ?thesis by (auto simp: download_video_invalid)
qed



text \<open>The definitions a concrete run is evaluated with.\<close>

lemmas eval_simps =
  generate_output_filename_def sample_env_def urlsplit_netloc_def empty_world_def
  VideoDownloader_def str_int_def str_nat.simps path_join_def startswith_def Let_def
  download_video_def download_body_def url_is_valid_def py_strip_def py_isspace_def py_lower_def
  py_lower_char_def build_ffmpeg_command_def get_quality_params_def quality_map_def quality_best_def
  execute_ffmpeg_command_def tool_with_def tool_copy_only_def say_def path_exists_def path_getsize_def
  try_fallback_download_def try_fallback_body_def fallback_cmd_def char_of_def bit_Suc_0_iff

lemma is_primary_build [simp]: "is_primary (build_ffmpeg_command self url p)"
  by (simp add: is_primary_def build_ffmpeg_command_def)

lemma is_primary_fallback [simp]: "\<not> is_primary (fallback_cmd self url p)"
  by (simp add: is_primary_def fallback_cmd_def)

lemma input_url_build [simp]: "input_url (build_ffmpeg_command self url p) = url"
  by (simp add: input_url_def build_ffmpeg_command_def)

text \<open>The commands one job starts.\<close>

lemma download_video_started:
  "started (snd (download_video env self url dir w)) =
     started w @
     (if \<not> url_is_valid url then []
      else if outcome (tool env (say StartingDownload w)
                 (build_ffmpeg_command self url (generate_output_filename env self url dir w)))
                = Exited 0 \<or> video_quality self = ''best''
      then [build_ffmpeg_command self url (generate_output_filename env self url dir w)]
      else [build_ffmpeg_command self url (generate_output_filename env self url dir w),
            fallback_cmd self url (generate_output_filename env self url dir w)])"
proof (cases "url_is_valid url")
  case True
  show ?thesis
    using True unfolding download_video_valid [OF True] Let_def
    by (auto simp: execute_ok split: option.splits)
next
  case False
  then show ?thesis by (simp add: download_video_invalid)
qed

lemma download_video_True_file:
  assumes "fst (download_video env self url dir w) = Inr True"
  shows "\<exists>n>0. files (snd (download_video env self url dir w))
                  (generate_output_filename env self url dir w) = Some n"
proof (cases "url_is_valid url")
  case True
  show ?thesis
    using assms True unfolding download_video_valid [OF True] Let_def
    by (auto simp: fallback_result split: option.splits if_splits)
next
  case False
  with assms show ?thesis by (simp add: download_video_invalid)
qed

lemma execute_never_times_out:
  "ProcessTimedOut \<in> set (console (snd (execute_ffmpeg_command env cmd w)))
     \<longleftrightarrow> ProcessTimedOut \<in> set (console w)"
  by (auto simp: execute_ffmpeg_command_def Let_def split: outcome.splits)

lemma fallback_never_times_out:
  "ProcessTimedOut \<in> set (console (snd (try_fallback_download env self url p w)))
     \<longleftrightarrow> ProcessTimedOut \<in> set (console w)"
proof -
  obtain ok w1 where ex: "execute_ffmpeg_command env (fallback_cmd self url p) w = (ok, w1)"
    by (cases "execute_ffmpeg_command env (fallback_cmd self url p) w")
  have "ProcessTimedOut \<in> set (console w1) \<longleftrightarrow> ProcessTimedOut \<in> set (console w)"
    using execute_never_times_out [of env "fallback_cmd self url p" w] ex by simp
  then show ?thesis
    unfolding try_fallback_download_def try_fallback_body_def ex
    by (cases ok) (auto simp: path_exists_def path_getsize_def split: option.splits)
qed

lemma download_video_never_times_out:
  "ProcessTimedOut \<in> set (console (snd (download_video env self url dir w)))
     \<longleftrightarrow> ProcessTimedOut \<in> set (console w)"
proof (cases "url_is_valid url")
  case True
  show ?thesis
    unfolding download_video_valid [OF True] Let_def
    by (auto simp: execute_never_times_out fallback_never_times_out split: option.splits)
next
  case False
  then show ?thesis by (simp add: download_video_invalid)
qed

subsection \<open>Argument lists\<close>

text \<open>
  Claim C7. For every quality setting that is none of \<open>best\<close>, \<open>high\<close>, \<open>medium\<close>, \<open>low\<close>,
  \<open>_get_quality_params\<close> returns the template of \<open>best\<close>, which is the stream-copy
  argument list \<open>-c copy\<close>.
\<close>

theorem unknown_quality_selects_best:
  assumes "video_quality self \<notin> {''best'', ''high'', ''medium'', ''low''}"
  shows "get_quality_params self = [''-c'', ''copy''] \<and>
         get_quality_params self = get_quality_params (self\<lparr>video_quality := ''best''\<rparr>)"
  using assms by (simp add: get_quality_params_def quality_map_def quality_best_def)

theorem unknown_quality_selects_best_witness:
  "get_quality_params \<lparr>video_quality = ''ultra'', output_format = ''mp4'', ffmpeg_path = ''ffmpeg''\<rparr>
     = [''-c'', ''copy'']"
  using unknown_quality_selects_best
    [of "\<lparr>video_quality = ''ultra'', output_format = ''mp4'', ffmpeg_path = ''ffmpeg''\<rparr>"]
  by simp

text \<open>
  Claim C8. For every URL, output path and quality setting, the primary argument list is
  the tool, \<open>-i\<close>, the URL, \<open>-bsf:a aac_adtstoasc -y -loglevel error -stats\<close>, the quality
  arguments (\<open>-c copy\<close> for \<open>best\<close>; \<open>-vf scale=-2:720\<close>, \<open>480\<close> or \<open>360\<close> with
  \<open>-c:v libx264 -c:a aac\<close> for \<open>high\<close>, \<open>medium\<close> and \<open>low\<close>) and the output path, in that
  order; and the command the fallback starts is the tool, \<open>-i\<close>, the URL,
  \<open>-c copy -bsf:a aac_adtstoasc -y\<close> and the output path.
\<close>

theorem command_lists_exact:
  "build_ffmpeg_command self url output_path =
     [ffmpeg_path self, ''-i'', url, ''-bsf:a'', ''aac_adtstoasc'', ''-y'',
      ''-loglevel'', ''error'', ''-stats''] @ get_quality_params self @ [output_path]
   \<and> get_quality_params (self\<lparr>video_quality := ''best''\<rparr>) = [''-c'', ''copy'']
   \<and> get_quality_params (self\<lparr>video_quality := ''high''\<rparr>) =
       [''-vf'', ''scale=-2:720'', ''-c:v'', ''libx264'', ''-c:a'', ''aac'']
   \<and> get_quality_params (self\<lparr>video_quality := ''medium''\<rparr>) =
       [''-vf'', ''scale=-2:480'', ''-c:v'', ''libx264'', ''-c:a'', ''aac'']
   \<and> get_quality_params (self\<lparr>video_quality := ''low''\<rparr>) =
       [''-vf'', ''scale=-2:360'', ''-c:v'', ''libx264'', ''-c:a'', ''aac'']
   \<and> started (snd (try_fallback_download env self url output_path w)) =
       started w @ [[ffmpeg_path self, ''-i'', url, ''-c'', ''copy'', ''-bsf:a'',
                     ''aac_adtstoasc'', ''-y'', output_path]]"
  by (simp add: build_ffmpeg_command_def get_quality_params_def quality_map_def
        quality_best_def fallback_cmd_def)

subsection \<open>The URL check\<close>

text \<open>
  Claim C6. For every input string that is empty after stripping, or that does not start,
  case-insensitively, with \<open>http://\<close> or \<open>https://\<close>, \<open>download_video\<close> records a failure
  (it returns \<open>False\<close>, which the session counts as failed) and starts the external tool
  not at all: no command is added to the log, no file changes, and the result is the same
  whatever the tool would do.
\<close>

theorem invalid_url_starts_nothing:
  assumes "py_strip url = [] \<or>
           \<not> (startswith (py_lower url) ''http://'' \<or> startswith (py_lower url) ''https://'')"
  shows "download_video env self url dir w =
           (Inr False, say (InvalidUrlSkipped (take 50 url)) w)
       \<and> started (snd (download_video env self url dir w)) = started w
       \<and> files (snd (download_video env self url dir w)) = files w
       \<and> download_video (env\<lparr>tool := t\<rparr>) self url dir w = download_video env self url dir w
       \<and> download_loop (\<lambda>u. download_video env self u dir) n i [url] (successful, failed, w) =
           (successful, failed + 1,
            say (InvalidUrlSkipped (take 50 url)) (say (VideoHeader i n) w))"
proof -
  from assms have "\<not> url_is_valid url"
    by (auto simp: url_is_valid_def)
  then show ?thesis
    by (simp add: download_video_invalid)
qed

theorem invalid_url_starts_nothing_witness:
  "download_video (sample_env tool_copy_only) (VideoDownloader ''best'' ''mp4'' None)
     ''ftp://example.com/a.m3u8'' ''./downloads'' empty_world =
     (Inr False, say (InvalidUrlSkipped ''ftp://example.com/a.m3u8'') empty_world)
   \<and> started (snd (download_video (sample_env tool_copy_only)
         (VideoDownloader ''best'' ''mp4'' None) ''  '' ''./downloads'' empty_world)) = []"
proof -
  have a: "py_strip ''ftp://example.com/a.m3u8'' = [] \<or>
           \<not> (startswith (py_lower ''ftp://example.com/a.m3u8'') ''http://'' \<or>
              startswith (py_lower ''ftp://example.com/a.m3u8'') ''https://'')"
    by (simp add: py_lower_def py_lower_char_def startswith_def)
  have b: "py_strip ''  '' = [] \<or>
           \<not> (startswith (py_lower ''  '') ''http://'' \<or> startswith (py_lower ''  '') ''https://'')"
    by (simp add: py_strip_def py_isspace_def)
  show ?thesis
    using invalid_url_starts_nothing [OF a, of "sample_env tool_copy_only"
            "VideoDownloader ''best'' ''mp4'' None" "''./downloads''" empty_world]
          invalid_url_starts_nothing [OF b, of "sample_env tool_copy_only"
            "VideoDownloader ''best'' ''mp4'' None" "''./downloads''" empty_world]
    by (simp add: empty_world_def)
qed

subsection \<open>Verification of the output file\<close>

text \<open>
  Claim C3. A job is reported successful only if the derived output file exists with a
  size greater than zero once the subprocess has exited; a job whose output file is
  missing or empty at its end has failed, and so has, in particular, the job whose
  subprocess exits with code 0 and leaves a missing or an empty output file.
\<close>

theorem success_needs_nonempty_output:
  fixes env self url dir w
  defines "p \<equiv> generate_output_filename env self url dir w"
  defines "r \<equiv> download_video env self url dir w"
  defines "first_run \<equiv> tool env (say StartingDownload w) (build_ffmpeg_command self url p)"
  shows "(fst r = Inr True \<longrightarrow> (\<exists>n>0. files (snd r) p = Some n))
       \<and> (files (snd r) p = None \<or> files (snd r) p = Some 0 \<longrightarrow> fst r = Inr False)
       \<and> (url_is_valid url \<and> outcome first_run = Exited 0 \<and>
            (leaves first_run (files w) p = None \<or> leaves first_run (files w) p = Some 0)
          \<longrightarrow> fst r = Inr False \<and> files (snd r) = leaves first_run (files w)
              \<and> console (snd r) = console w @ [StartingDownload, OutputFileEmpty])"
proof -
  have one: "fst r = Inr True \<longrightarrow> (\<exists>n>0. files (snd r) p = Some n)"
    unfolding r_def p_def using download_video_True_file by blast
  obtain b where b: "fst r = Inr b"
    unfolding r_def using download_video_returns by blast
  have two: "files (snd r) p = None \<or> files (snd r) p = Some 0 \<longrightarrow> fst r = Inr False"
    using one b by (cases b) auto
  have three: "url_is_valid url \<and> outcome first_run = Exited 0 \<and>
            (leaves first_run (files w) p = None \<or> leaves first_run (files w) p = Some 0)
          \<longrightarrow> fst r = Inr False \<and> files (snd r) = leaves first_run (files w)
              \<and> console (snd r) = console w @ [StartingDownload, OutputFileEmpty]"
  proof (intro impI, elim conjE)
    assume v: "url_is_valid url" and ok: "outcome first_run = Exited 0"
      and e: "leaves first_run (files w) p = None \<or> leaves first_run (files w) p = Some 0"
    have c: "console (snd (execute_ffmpeg_command env (build_ffmpeg_command self url p)
                (say StartingDownload w))) = console w @ [StartingDownload]"
      using ok unfolding first_run_def
      by (simp add: execute_ffmpeg_command_def Let_def)
    show "fst r = Inr False \<and> files (snd r) = leaves first_run (files w)
              \<and> console (snd r) = console w @ [StartingDownload, OutputFileEmpty]"
      using ok e c unfolding r_def download_video_valid [OF v] Let_def
      by (auto simp: execute_ok p_def first_run_def)
  qed
  show ?thesis using one two three by blast
qed


theorem success_needs_nonempty_output_witness:
  "fst (download_video (sample_env (tool_with (Exited 0) 30 (Some 5)))
          (VideoDownloader ''best'' ''mp4'' None) ''http://www.example.com/a.m3u8''
          ''./downloads'' empty_world) = Inr True
   \<and> (\<exists>n>0. files (snd (download_video (sample_env (tool_with (Exited 0) 30 (Some 5)))
          (VideoDownloader ''best'' ''mp4'' None) ''http://www.example.com/a.m3u8''
          ''./downloads'' empty_world)) ''./downloads/example.com_1700000000.mp4'' = Some n)
   \<and> files (snd (download_video (sample_env (tool_with (Exited 0) 30 (Some 0)))
          (VideoDownloader ''best'' ''mp4'' None) ''http://www.example.com/a.m3u8''
          ''./downloads'' empty_world)) ''./downloads/example.com_1700000000.mp4'' = Some 0
   \<and> fst (download_video (sample_env (tool_with (Exited 0) 30 (Some 0)))
          (VideoDownloader ''best'' ''mp4'' None) ''http://www.example.com/a.m3u8''
          ''./downloads'' empty_world) = Inr False"
proof -
  let ?self = "VideoDownloader ''best'' ''mp4'' None"
  let ?url = "''http://www.example.com/a.m3u8''"
  let ?good = "sample_env (tool_with (Exited 0) 30 (Some 5))"
  let ?empty = "sample_env (tool_with (Exited 0) 30 (Some 0))"
  have p: "generate_output_filename env ?self ?url ''./downloads'' empty_world =
             ''./downloads/example.com_1700000000.mp4''"
    if "urlparse_netloc env = urlsplit_netloc" for env
    using that by (simp add: eval_simps)
  have h1: "fst (download_video ?good ?self ?url ''./downloads'' empty_world) = Inr True"
    by (simp add: eval_simps)
  have h2: "files (snd (download_video ?empty ?self ?url ''./downloads'' empty_world))
              ''./downloads/example.com_1700000000.mp4'' = Some 0"
    by (simp add: eval_simps)
  have c1: "\<exists>n>0. files (snd (download_video ?good ?self ?url ''./downloads'' empty_world))
              ''./downloads/example.com_1700000000.mp4'' = Some n"
    using success_needs_nonempty_output [where env="?good" and self="?self" and url="?url"
            and dir="''./downloads''" and w=empty_world] h1
    by (simp add: p sample_env_def)
  have c2: "fst (download_video ?empty ?self ?url ''./downloads'' empty_world) = Inr False"
    using success_needs_nonempty_output [where env="?empty" and self="?self" and url="?url"
            and dir="''./downloads''" and w=empty_world] h2
    by (simp add: p sample_env_def)
  show ?thesis using h1 h2 c1 c2 by blast
qed

subsection \<open>The fallback to stream copy\<close>

text \<open>
  Claim C1, as stated, promises the stream-copy retry also when the primary run exits
  with code 0 and the output fails verification. The code does not retry there: with
  quality \<open>high\<close>, a run that exits with code 0 and leaves an empty file ends the job
  with \<open>False\<close> after one command, on the message that the output file is empty.
\<close>

theorem verification_failure_is_not_retried:
  "video_quality (VideoDownloader ''high'' ''mp4'' None) \<noteq> ''best''
   \<and> url_is_valid ''http://www.example.com/a.m3u8''
   \<and> outcome (tool (sample_env (tool_with (Exited 0) 30 (Some 0)))
         (say StartingDownload empty_world)
         (build_ffmpeg_command (VideoDownloader ''high'' ''mp4'' None)
            ''http://www.example.com/a.m3u8'' ''./downloads/example.com_1700000000.mp4''))
       = Exited 0
   \<and> files (snd (download_video (sample_env (tool_with (Exited 0) 30 (Some 0)))
          (VideoDownloader ''high'' ''mp4'' None) ''http://www.example.com/a.m3u8''
          ''./downloads'' empty_world)) ''./downloads/example.com_1700000000.mp4'' = Some 0
   \<and> fst (download_video (sample_env (tool_with (Exited 0) 30 (Some 0)))
          (VideoDownloader ''high'' ''mp4'' None) ''http://www.example.com/a.m3u8''
          ''./downloads'' empty_world) = Inr False
   \<and> started (snd (download_video (sample_env (tool_with (Exited 0) 30 (Some 0)))
          (VideoDownloader ''high'' ''mp4'' None) ''http://www.example.com/a.m3u8''
          ''./downloads'' empty_world)) =
        [[''ffmpeg'', ''-i'', ''http://www.example.com/a.m3u8'', ''-bsf:a'', ''aac_adtstoasc'',
          ''-y'', ''-loglevel'', ''error'', ''-stats'', ''-vf'', ''scale=-2:720'', ''-c:v'',
          ''libx264'', ''-c:a'', ''aac'', ''./downloads/example.com_1700000000.mp4'']]
   \<and> console (snd (download_video (sample_env (tool_with (Exited 0) 30 (Some 0)))
          (VideoDownloader ''high'' ''mp4'' None) ''http://www.example.com/a.m3u8''
          ''./downloads'' empty_world)) = [StartingDownload, OutputFileEmpty]"
  by (simp add: eval_simps)

text \<open>
  Claim C1, amended. For every job whose primary run cannot be executed or ends in a
  failed exit code, if the quality is not \<open>best\<close>, the fallback command (stream copy) is
  started exactly once after the primary command, against the same output path, and the
  job's result is that of the same execute-and-verify steps: it succeeds exactly when the
  fallback exits with code 0 and the output file exists with a size above zero. With
  quality \<open>best\<close>, or after a primary run that exits with code 0, the primary command is
  the only one started; a primary run that exits with code 0 and leaves a missing or
  empty output file makes the job fail. No job starts more than one fallback command.
\<close>

theorem fallback_after_failed_run:
  fixes env self url dir w
  defines "p \<equiv> generate_output_filename env self url dir w"
  defines "primary \<equiv> build_ffmpeg_command self url p"
  defines "w1 \<equiv> snd (execute_ffmpeg_command env primary (say StartingDownload w))"
  defines "r \<equiv> download_video env self url dir w"
  shows "(url_is_valid url \<and> video_quality self \<noteq> ''best'' \<and>
          outcome (tool env (say StartingDownload w) primary) \<noteq> Exited 0
          \<longrightarrow> started (snd r) = started w @ [primary, fallback_cmd self url p]
              \<and> fst r = Inr (outcome (tool env (say ReencodingFailed w1) (fallback_cmd self url p))
                               = Exited 0
                             \<and> (\<exists>n>0. files (snd r) p = Some n)))
       \<and> (url_is_valid url \<and>
          (video_quality self = ''best'' \<or>
           outcome (tool env (say StartingDownload w) primary) = Exited 0)
          \<longrightarrow> started (snd r) = started w @ [primary])
       \<and> (url_is_valid url \<and> outcome (tool env (say StartingDownload w) primary) = Exited 0 \<and>
          (files w1 p = None \<or> files w1 p = Some 0)
          \<longrightarrow> fst r = Inr False)
       \<and> length (filter (\<lambda>cmd. \<not> is_primary cmd)
                  (drop (length (started w)) (started (snd r)))) \<le> 1"
proof -
  have retry: "started (snd r) = started w @ [primary, fallback_cmd self url p]
      \<and> fst r = Inr (outcome (tool env (say ReencodingFailed w1) (fallback_cmd self url p))
                       = Exited 0
                     \<and> (\<exists>n>0. files (snd r) p = Some n))"
    if v: "url_is_valid url" and q: "video_quality self \<noteq> ''best''"
      and f: "outcome (tool env (say StartingDownload w) primary) \<noteq> Exited 0"
  proof -
    have "started (snd r) = started w @ [primary, fallback_cmd self url p]"
      using v q f unfolding r_def download_video_started primary_def p_def by simp
    moreover have "fst r = Inr (outcome (tool env (say ReencodingFailed w1)
                       (fallback_cmd self url p)) = Exited 0
                     \<and> (\<exists>n>0. files (snd r) p = Some n))"
      using q f unfolding r_def download_video_valid [OF v] Let_def
      by (simp add: execute_ok fallback_result w1_def primary_def p_def)
    ultimately show ?thesis by blast
  qed
  have single: "started (snd r) = started w @ [primary]"
    if "url_is_valid url"
      and "video_quality self = ''best'' \<or>
           outcome (tool env (say StartingDownload w) primary) = Exited 0"
    using that unfolding r_def download_video_started primary_def p_def by auto
  have empty: "fst r = Inr False"
    if v: "url_is_valid url"
      and ok: "outcome (tool env (say StartingDownload w) primary) = Exited 0"
      and e: "files w1 p = None \<or> files w1 p = Some 0"
    using ok e unfolding r_def download_video_valid [OF v] Let_def
    by (auto simp: execute_ok w1_def primary_def p_def)
  have once: "length (filter (\<lambda>cmd. \<not> is_primary cmd)
                  (drop (length (started w)) (started (snd r)))) \<le> 1"
    unfolding r_def download_video_started by simp
  show ?thesis using retry single empty once by blast
qed


theorem fallback_after_failed_run_witness:
  "started (snd (download_video (sample_env tool_copy_only)
      (VideoDownloader ''high'' ''mp4'' None) ''http://www.example.com/a.m3u8''
      ''./downloads'' empty_world)) =
     [[''ffmpeg'', ''-i'', ''http://www.example.com/a.m3u8'', ''-bsf:a'', ''aac_adtstoasc'',
       ''-y'', ''-loglevel'', ''error'', ''-stats'', ''-vf'', ''scale=-2:720'', ''-c:v'',
       ''libx264'', ''-c:a'', ''aac'', ''./downloads/example.com_1700000000.mp4''],
      [''ffmpeg'', ''-i'', ''http://www.example.com/a.m3u8'', ''-c'', ''copy'', ''-bsf:a'',
       ''aac_adtstoasc'', ''-y'', ''./downloads/example.com_1700000000.mp4'']]
   \<and> fst (download_video (sample_env tool_copy_only)
      (VideoDownloader ''high'' ''mp4'' None) ''http://www.example.com/a.m3u8''
      ''./downloads'' empty_world) = Inr True
   \<and> started (snd (download_video (sample_env (tool_with (Exited 1) 2 None))
      (VideoDownloader ''best'' ''mp4'' None) ''http://www.example.com/a.m3u8''
      ''./downloads'' empty_world)) =
     [[''ffmpeg'', ''-i'', ''http://www.example.com/a.m3u8'', ''-bsf:a'', ''aac_adtstoasc'',
       ''-y'', ''-loglevel'', ''error'', ''-stats'', ''-c'', ''copy'',
       ''./downloads/example.com_1700000000.mp4'']]
   \<and> fst (download_video (sample_env (tool_with (Exited 0) 30 (Some 0)))
      (VideoDownloader ''high'' ''mp4'' None) ''http://www.example.com/a.m3u8''
      ''./downloads'' empty_world) = Inr False"
proof -
  let ?url = "''http://www.example.com/a.m3u8''"
  let ?high = "VideoDownloader ''high'' ''mp4'' None"
  let ?best = "VideoDownloader ''best'' ''mp4'' None"
  let ?copy = "sample_env tool_copy_only"
  let ?bad = "sample_env (tool_with (Exited 1) 2 None)"
  let ?empty = "sample_env (tool_with (Exited 0) 30 (Some 0))"
  let ?p = "\<lambda>env self. generate_output_filename env self ?url ''./downloads'' empty_world"
  have h1: "url_is_valid ?url \<and> video_quality ?high \<noteq> ''best'' \<and>
            outcome (tool ?copy (say StartingDownload empty_world)
              (build_ffmpeg_command ?high ?url (?p ?copy ?high))) \<noteq> Exited 0"
    by (simp add: eval_simps)
  have h2: "url_is_valid ?url \<and>
            (video_quality ?best = ''best'' \<or>
             outcome (tool ?bad (say StartingDownload empty_world)
              (build_ffmpeg_command ?best ?url (?p ?bad ?best))) = Exited 0)"
    by (simp add: eval_simps)
  have h3: "url_is_valid ?url \<and>
            outcome (tool ?empty (say StartingDownload empty_world)
              (build_ffmpeg_command ?high ?url (?p ?empty ?high))) = Exited 0 \<and>
            (files (snd (execute_ffmpeg_command ?empty
                (build_ffmpeg_command ?high ?url (?p ?empty ?high))
                (say StartingDownload empty_world))) (?p ?empty ?high) = None \<or>
             files (snd (execute_ffmpeg_command ?empty
                (build_ffmpeg_command ?high ?url (?p ?empty ?high))
                (say StartingDownload empty_world))) (?p ?empty ?high) = Some 0)"
    by (simp add: eval_simps)
  have t1: "started (snd (download_video ?copy ?high ?url ''./downloads'' empty_world)) =
              started empty_world @
              [build_ffmpeg_command ?high ?url (?p ?copy ?high),
               fallback_cmd ?high ?url (?p ?copy ?high)]
            \<and> fst (download_video ?copy ?high ?url ''./downloads'' empty_world) =
              Inr (outcome (tool ?copy (say ReencodingFailed
                     (snd (execute_ffmpeg_command ?copy
                        (build_ffmpeg_command ?high ?url (?p ?copy ?high))
                        (say StartingDownload empty_world))))
                     (fallback_cmd ?high ?url (?p ?copy ?high))) = Exited 0
                   \<and> (\<exists>n>0. files (snd (download_video ?copy ?high ?url ''./downloads''
                                  empty_world)) (?p ?copy ?high) = Some n))"
    using fallback_after_failed_run [where env="?copy" and self="?high" and url="?url"
            and dir="''./downloads''" and w=empty_world] h1
    by blast
  have t2: "started (snd (download_video ?bad ?best ?url ''./downloads'' empty_world)) =
              started empty_world @ [build_ffmpeg_command ?best ?url (?p ?bad ?best)]"
    using fallback_after_failed_run [where env="?bad" and self="?best" and url="?url"
            and dir="''./downloads''" and w=empty_world] h2
    by blast
  have t3: "fst (download_video ?empty ?high ?url ''./downloads'' empty_world) = Inr False"
    using fallback_after_failed_run [where env="?empty" and self="?high" and url="?url"
            and dir="''./downloads''" and w=empty_world] h3
    by blast
  have e1: "fst (download_video ?copy ?high ?url ''./downloads'' empty_world) = Inr True"
    by (simp add: eval_simps)
  show ?thesis
    using t1 t2 t3 e1
    by (simp add: eval_simps)
qed

subsection \<open>The time limit\<close>

text \<open>
  Claim C2 says that a subprocess running for more than one hour is aborted and the job
  fails. \<open>process.wait()\<close> is called without a time limit, so nothing raises
  \<open>subprocess.TimeoutExpired\<close>, and the handler of \<open>download_video\<close> that prints
  ``FFMPEG process timed out (1 hour limit).'' never runs. A run of two hours that exits
  with code 0 and leaves a file of five bytes gives a successful job.
\<close>

theorem two_hour_run_is_not_cut_off:
  "seconds (tool (sample_env (tool_with (Exited 0) 7200 (Some 5)))
      (say StartingDownload empty_world)
      (build_ffmpeg_command (VideoDownloader ''best'' ''mp4'' None)
         ''http://www.example.com/a.m3u8'' ''./downloads/example.com_1700000000.mp4'')) = 7200
   \<and> fst (download_video (sample_env (tool_with (Exited 0) 7200 (Some 5)))
      (VideoDownloader ''best'' ''mp4'' None) ''http://www.example.com/a.m3u8''
      ''./downloads'' empty_world) = Inr True
   \<and> clock (snd (download_video (sample_env (tool_with (Exited 0) 7200 (Some 5)))
      (VideoDownloader ''best'' ''mp4'' None) ''http://www.example.com/a.m3u8''
      ''./downloads'' empty_world)) = clock empty_world + 7200
   \<and> console (snd (download_video (sample_env (tool_with (Exited 0) 7200 (Some 5)))
      (VideoDownloader ''best'' ''mp4'' None) ''http://www.example.com/a.m3u8''
      ''./downloads'' empty_world)) = [StartingDownload, DownloadComplete 5]"
  by (simp add: eval_simps)

subsection \<open>What a job returns\<close>






section \<open>Properties of the file handler\<close>

subsection \<open>The URL list\<close>










subsection \<open>The settings\<close>

lemma read_keys_other:
  "read_keys env c kvs s0 = Inr s \<Longrightarrow> k \<notin> fst ` set kvs \<Longrightarrow> s k = s0 k"
proof (induction kvs arbitrary: s0)
  case Nil
  then show ?case by simp
next
  case (Cons kv kvs)
  obtain key dflt where kv: "kv = (key, dflt)" by (cases kv)
  from Cons.prems kv obtain v where
    "config_get env c ''SETTINGS'' key dflt = Inr v"
    "read_keys env c kvs (s0(key \<mapsto> v)) = Inr s"
    by (auto split: sum.splits)
  then have rest: "read_keys env c kvs (s0(key \<mapsto> v)) = Inr s" by simp
  from Cons.prems(2) kv have "k \<noteq> key" "k \<notin> fst ` set kvs" by auto
  from Cons.IH [OF rest this(2)] this(1) show ?case by simp
qed

lemma read_keys_dom:
  "read_keys env c kvs s0 = Inr s \<Longrightarrow> dom s = dom s0 \<union> fst ` set kvs"
proof (induction kvs arbitrary: s0)
  case Nil
  then show ?case by simp
next
  case (Cons kv kvs)
  obtain key dflt where kv: "kv = (key, dflt)" by (cases kv)
  from Cons.prems kv obtain v where
    "config_get env c ''SETTINGS'' key dflt = Inr v"
    "read_keys env c kvs (s0(key \<mapsto> v)) = Inr s"
    by (auto split: sum.splits)
  then have rest: "read_keys env c kvs (s0(key \<mapsto> v)) = Inr s" by simp
  have "dom s = dom (s0(key \<mapsto> v)) \<union> fst ` set kvs" by (rule Cons.IH [OF rest])
  then show ?case using kv by auto
qed

lemma config_get_missing:
  "ini_sections c section = None \<or>
   (\<exists>sec. ini_sections c section = Some sec \<and> (ini_defaults c ++ sec) key = None)
   \<Longrightarrow> config_get env c section key dflt = Inr dflt"
  by (auto simp: config_get_def Let_def map_add_def split: option.splits)

lemma read_keys_default:
  assumes "read_keys env c kvs s0 = Inr s" "distinct (map fst kvs)" "(k, d) \<in> set kvs"
    and "ini_sections c ''SETTINGS'' = Some sec" "(ini_defaults c ++ sec) k = None"
  shows "s k = Some d"
  using assms(1-3)
proof (induction kvs arbitrary: s0)
  case Nil
  then show ?case by simp
next
  case (Cons kv kvs)
  obtain key dflt where kv: "kv = (key, dflt)" by (cases kv)
  from Cons.prems(1) kv obtain v where
    g: "config_get env c ''SETTINGS'' key dflt = Inr v"
    and rest: "read_keys env c kvs (s0(key \<mapsto> v)) = Inr s"
    by (auto split: sum.splits)
  show ?case
  proof (cases "(k, d) = kv")
    case True
    then have "key = k" "dflt = d" using kv by simp_all
    moreover have "config_get env c ''SETTINGS'' k d = Inr d"
      using assms(4,5) by (intro config_get_missing) simp
    ultimately have "v = d" using g by simp
    moreover have "k \<notin> fst ` set kvs"
      using Cons.prems(2) kv \<open>key = k\<close> by auto
    ultimately show ?thesis
      using read_keys_other [OF rest, of k] \<open>key = k\<close> by simp
  next
    case False
    with Cons.prems have "(k, d) \<in> set kvs" "distinct (map fst kvs)" by auto
    with Cons.IH [OF rest] show ?thesis by simp
  qed
qed

lemma create_default_settings_result [simp]:
  "fst (create_default_settings w) = map_of default_settings"
  by (simp add: create_default_settings_def split: prod.splits)

lemma default_keys:
  "fst ` set default_settings =
     {''download_directory'', ''video_quality'', ''output_format'', ''ffmpeg_path''}"
  "distinct (map fst default_settings)"
  by (auto simp: default_settings_def)

lemma default_settings_dom:
  "dom (map_of default_settings) =
     {''download_directory'', ''video_quality'', ''output_format'', ''ffmpeg_path''}"
  unfolding dom_map_of_conv_image_fst by (rule default_keys(1))

lemma default_settings_value:
  "(key, d) \<in> set default_settings \<Longrightarrow> map_of default_settings key = Some d"
  by (rule map_of_is_SomeI [OF default_keys(2)])

lemma read_settings_cases:
  "fst (read_settings env w) = Inr (map_of default_settings) \<or>
   (\<exists>c sec s. settings_ini w = Holds c \<and> ini_sections c ''SETTINGS'' = Some sec \<and>
       read_keys env c default_settings Map.empty = Inr s \<and>
       read_settings env w = (Inr s, w))"
proof (cases "settings_ini w")
  case Absent
  then show ?thesis
    by (simp add: read_settings_def read_settings_body_def create_default_settings_def
          split: prod.splits)
next
  case (Fails e)
  then show ?thesis
    by (simp add: read_settings_def read_settings_body_def config_read_def
          create_default_settings_def split: prod.splits)
next
  case (Holds c)
  show ?thesis
  proof (cases "ini_sections c ''SETTINGS''")
    case None
    with Holds show ?thesis
      by (simp add: read_settings_def read_settings_body_def config_read_def
            create_default_settings_def split: prod.splits)
  next
    case (Some sec)
    with Holds show ?thesis
      by (cases "read_keys env c default_settings Map.empty")
         (simp_all add: read_settings_def read_settings_body_def config_read_def)
  qed
qed

text \<open>
  Claim C4. For every state of the settings file (absent, unreadable, without its
  section, with any subset of the four keys) \<open>read_settings\<close> raises nothing and returns
  a dictionary whose keys are exactly \<open>download_directory\<close>, \<open>video_quality\<close>,
  \<open>output_format\<close> and \<open>ffmpeg_path\<close>, each key the file is missing having its default
  (\<open>./downloads\<close>, \<open>best\<close>, \<open>mp4\<close>, \<open>ffmpeg\<close>). When the file is absent (and can be
  written), the first load creates it with exactly these defaults under \<open>[SETTINGS]\<close>
  and returns them.
\<close>

theorem read_settings_always_complete:
  fixes env w
  defines "r \<equiv> read_settings env w"
  shows "(\<exists>settings. fst r = Inr settings
            \<and> dom settings =
                {''download_directory'', ''video_quality'', ''output_format'', ''ffmpeg_path''}
            \<and> (\<forall>(key, dflt) \<in> set default_settings.
                  file_option w key = None \<longrightarrow> settings key = Some dflt))
       \<and> default_settings =
            [(''download_directory'', ''./downloads''), (''video_quality'', ''best''),
             (''output_format'', ''mp4''), (''ffmpeg_path'', ''ffmpeg'')]
       \<and> (settings_ini w = Absent \<and> settings_write w = None \<longrightarrow>
            fst r = Inr (map_of [(''download_directory'', ''./downloads''),
                                 (''video_quality'', ''best''),
                                 (''output_format'', ''mp4''), (''ffmpeg_path'', ''ffmpeg'')])
            \<and> settings_ini (snd r) =
                Holds \<lparr>ini_sections =
                         [''SETTINGS'' \<mapsto>
                            map_of [(''download_directory'', ''./downloads''),
                                    (''video_quality'', ''best''),
                                    (''output_format'', ''mp4''), (''ffmpeg_path'', ''ffmpeg'')]],
                       ini_defaults = Map.empty\<rparr>)"
proof -
  define keys where
    "keys = {''download_directory'', ''video_quality'', ''output_format'', ''ffmpeg_path''}"
  have ds: "default_settings =
            [(''download_directory'', ''./downloads''), (''video_quality'', ''best''),
             (''output_format'', ''mp4''), (''ffmpeg_path'', ''ffmpeg'')]"
    by (simp add: default_settings_def)
  have dom_dflt: "dom (map_of default_settings) = keys"
    unfolding keys_def by (rule default_settings_dom)
  have images: "fst ` set default_settings = keys"
    unfolding keys_def by (rule default_keys(1))
  let ?good = "\<lambda>settings. dom settings = keys \<and>
                 (\<forall>(key, dflt) \<in> set default_settings.
                    file_option w key = None \<longrightarrow> settings key = Some dflt)"
  have dflt: "?good (map_of default_settings)"
    using dom_dflt default_settings_value by blast
  have complete: "\<exists>settings. fst r = Inr settings \<and> ?good settings"
    using read_settings_cases [of env w]
  proof
    assume "fst (read_settings env w) = Inr (map_of default_settings)"
    with dflt show ?thesis unfolding r_def by blast
  next
    assume "\<exists>c sec s. settings_ini w = Holds c \<and> ini_sections c ''SETTINGS'' = Some sec \<and>
       read_keys env c default_settings Map.empty = Inr s \<and>
       read_settings env w = (Inr s, w)"
    then obtain c sec s where h: "settings_ini w = Holds c"
      and sec: "ini_sections c ''SETTINGS'' = Some sec"
      and keys: "read_keys env c default_settings Map.empty = Inr s"
      and res: "read_settings env w = (Inr s, w)"
      by blast
    have "dom s = keys"
      unfolding read_keys_dom [OF keys] images by simp
    moreover have "s key = Some d"
      if "(key, d) \<in> set default_settings" "file_option w key = None" for key d
    proof -
      from that(2) h sec have "(ini_defaults c ++ sec) key = None"
        by (simp add: file_option_def)
      from read_keys_default [OF keys default_keys(2) that(1) sec this] show ?thesis .
    qed
    ultimately have "?good s" by blast
    moreover have "fst r = Inr s" unfolding r_def res by simp
    ultimately show ?thesis by blast
  qed
  have created: "settings_ini w = Absent \<and> settings_write w = None \<longrightarrow>
      fst r = Inr (map_of default_settings) \<and>
      settings_ini (snd r) =
        Holds \<lparr>ini_sections = [''SETTINGS'' \<mapsto> map_of default_settings],
               ini_defaults = Map.empty\<rparr>"
    unfolding r_def
    by (simp add: read_settings_def read_settings_body_def create_default_settings_def
          write_settings_def)
  show ?thesis
    unfolding ds [symmetric] keys_def [symmetric]
    by (intro conjI complete created refl)
qed


theorem read_settings_always_complete_witness:
  "fst (read_settings (sample_env tool_copy_only) empty_world) =
     Inr (map_of [(''download_directory'', ''./downloads''), (''video_quality'', ''best''),
                  (''output_format'', ''mp4''), (''ffmpeg_path'', ''ffmpeg'')])
   \<and> settings_ini (snd (read_settings (sample_env tool_copy_only) empty_world)) =
       Holds \<lparr>ini_sections =
                [''SETTINGS'' \<mapsto>
                   map_of [(''download_directory'', ''./downloads''),
                           (''video_quality'', ''best''),
                           (''output_format'', ''mp4''), (''ffmpeg_path'', ''ffmpeg'')]],
              ini_defaults = Map.empty\<rparr>
   \<and> (\<exists>settings.
         fst (read_settings (sample_env tool_copy_only)
                (empty_world\<lparr>settings_ini :=
                   Holds \<lparr>ini_sections = [''SETTINGS'' \<mapsto> [''video_quality'' \<mapsto> ''low'']],
                          ini_defaults = Map.empty\<rparr>\<rparr>)) = Inr settings
       \<and> settings ''download_directory'' = Some ''./downloads''
       \<and> settings ''video_quality'' = Some ''low''
       \<and> settings ''output_format'' = Some ''mp4''
       \<and> settings ''ffmpeg_path'' = Some ''ffmpeg'')"
proof -
  let ?env = "sample_env tool_copy_only"
  let ?w = "empty_world\<lparr>settings_ini :=
              Holds \<lparr>ini_sections = [''SETTINGS'' \<mapsto> [''video_quality'' \<mapsto> ''low'']],
                     ini_defaults = Map.empty\<rparr>\<rparr>"
  have absent: "settings_ini empty_world = Absent \<and> settings_write empty_world = None"
    by (simp add: empty_world_def)
  note first = read_settings_always_complete [where env="?env" and w=empty_world,
      THEN conjunct2, THEN conjunct2, THEN mp, OF absent]
  from read_settings_always_complete [where env="?env" and w="?w", THEN conjunct1]
  obtain settings where res: "fst (read_settings ?env ?w) = Inr settings"
    and missing: "\<forall>(key, dflt) \<in> set default_settings.
                    file_option ?w key = None \<longrightarrow> settings key = Some dflt"
    by (elim exE conjE)
  have lacks: "file_option ?w ''download_directory'' = None"
      "file_option ?w ''output_format'' = None" "file_option ?w ''ffmpeg_path'' = None"
    by (simp_all add: file_option_def)
  from missing lacks have dflts: "settings ''download_directory'' = Some ''./downloads''"
    "settings ''output_format'' = Some ''mp4''" "settings ''ffmpeg_path'' = Some ''ffmpeg''"
    by (simp_all add: default_settings_def)
  have ev: "fst (read_settings ?env ?w) =
          Inr [''download_directory'' \<mapsto> ''./downloads'', ''video_quality'' \<mapsto> ''low'',
               ''output_format'' \<mapsto> ''mp4'', ''ffmpeg_path'' \<mapsto> ''ffmpeg'']"
    by (simp add: read_settings_def read_settings_body_def config_read_def config_get_def
          default_settings_def sample_env_def)
  have "settings = [''download_directory'' \<mapsto> ''./downloads'', ''video_quality'' \<mapsto> ''low'',
               ''output_format'' \<mapsto> ''mp4'', ''ffmpeg_path'' \<mapsto> ''ffmpeg'']"
    using ev unfolding res by (simp only: sum.inject)
  then have low: "settings ''video_quality'' = Some ''low''" by simp
  from res dflts low have "fst (read_settings ?env ?w) = Inr settings
       \<and> settings ''download_directory'' = Some ''./downloads''
       \<and> settings ''video_quality'' = Some ''low''
       \<and> settings ''output_format'' = Some ''mp4''
       \<and> settings ''ffmpeg_path'' = Some ''ffmpeg''"
    by (intro conjI)
  then have "\<exists>settings. fst (read_settings ?env ?w) = Inr settings
       \<and> settings ''download_directory'' = Some ''./downloads''
       \<and> settings ''video_quality'' = Some ''low''
       \<and> settings ''output_format'' = Some ''mp4''
       \<and> settings ''ffmpeg_path'' = Some ''ffmpeg''"
    by (rule exI [where x=settings])
  from conjI [OF first [THEN conjunct1] conjI [OF first [THEN conjunct2] this]]
  show ?thesis .
qed

section \<open>Properties of the download session\<close>

subsection \<open>The loop over the URLs\<close>

text \<open>No job prints a header.\<close>

lemma is_header_simps [simp]:
  "is_header (VideoHeader i n)" "\<not> is_header (InvalidUrlSkipped u)" "\<not> is_header StartingDownload"
  "\<not> is_header (DownloadComplete k)" "\<not> is_header OutputFileEmpty" "\<not> is_header ReencodingFailed"
  "\<not> is_header DownloadFailed" "\<not> is_header ProcessTimedOut" "\<not> is_header (UnexpectedError e)"
  "\<not> is_header CommandNotFound" "\<not> is_header (ExecuteFailed e)" "\<not> is_header FallbackSuccessful"
  "\<not> is_header FallbackFileEmpty" "\<not> is_header FallbackFailed" "\<not> is_header (FallbackUnexpected e)"
  "\<not> is_header (JobError e)" "\<not> is_header (CompletedCount k)" "\<not> is_header (FailedCount k)"
  "\<not> is_header AllSuccessful" "\<not> is_header FfmpegNotWorking" "\<not> is_header FfmpegNotFound"
  "\<not> is_header FfmpegCheckFailed" "\<not> is_header FfmpegMissing" "\<not> is_header NoUrlsFound"
  "\<not> is_header (VideosReady k)" "\<not> is_header DirectoryNotWritable"
  "\<not> is_header (DirectoryError e)" "\<not> is_header CannotAccessDirectory"
  "\<not> is_header (QualityFormat q t)" "\<not> is_header Cancelled"
  "\<not> is_header SettingsNotFound" "\<not> is_header InvalidSettingsFile"
  "\<not> is_header (SettingsReadError e)" "\<not> is_header (SettingsSaveError e)"
  "\<not> is_header DefaultSettingsCreated" "\<not> is_header (CouldNotReadUrls e)"
  by (simp_all add: is_header_def)



























end
